theory Spec2Isabelle
  imports
    Main
    "HOL-Library.Sublist"
    "HOL-Library.Multiset"
    "HOL-Library.Char_ord"
    "HOL-Library.List_Lexorder"
begin

text \<open>
  A model of the web-to-PDF scraper of \<^verbatim>\<open>main.go\<close>: the callbacks registered on the
  collector, the crawl as the sequence of callbacks the collector delivers, the wait for the
  crawl with its timeout goroutine, the sorting and rendering of the collected pages, and
  the saving of the document. The file holds two versions of the program; the model follows
  the second one, with the asynchronous collector, the mutex and the timeout. The collector,
  the PDF library, the URL parser and the file system are outside the program: what they
  answer is an input of the model, and what the program asks of them is an output.
\<close>

section \<open>Go strings\<close>

text \<open>
  A Go \<^verbatim>\<open>string\<close> is a sequence of bytes; it is modelled as \<^typ>\<open>string\<close>, one
  \<^typ>\<open>char\<close> per byte. \<^verbatim>\<open>strings.HasPrefix(s, p)\<close> is \<^term>\<open>prefix p s\<close>,
  \<^verbatim>\<open>strings.HasSuffix(s, p)\<close> is \<^term>\<open>suffix p s\<close>, and the comparison \<^verbatim>\<open>s < t\<close>
  is the order of \<^typ>\<open>char list\<close>: lexicographic on the bytes, a proper prefix first.
\<close>

definition nl :: char where
  "nl = CHR 0x0A"

text \<open>
  The white space of \<^verbatim>\<open>unicode.IsSpace\<close>, each code point in its UTF-8 encoding:
  tab, line feed, vertical tab, form feed, carriage return, space, U+0085, U+00A0, U+1680,
  U+2000 to U+200A, U+2028, U+2029, U+202F, U+205F and U+3000.
\<close>

definition white_space :: "string list" where
  "white_space =
    [[CHR 0x09], [CHR 0x0A], [CHR 0x0B], [CHR 0x0C], [CHR 0x0D], [CHR 0x20],
     [CHR 0xC2, CHR 0x85], [CHR 0xC2, CHR 0xA0],
     [CHR 0xE1, CHR 0x9A, CHR 0x80],
     [CHR 0xE2, CHR 0x80, CHR 0x80], [CHR 0xE2, CHR 0x80, CHR 0x81],
     [CHR 0xE2, CHR 0x80, CHR 0x82], [CHR 0xE2, CHR 0x80, CHR 0x83],
     [CHR 0xE2, CHR 0x80, CHR 0x84], [CHR 0xE2, CHR 0x80, CHR 0x85],
     [CHR 0xE2, CHR 0x80, CHR 0x86], [CHR 0xE2, CHR 0x80, CHR 0x87],
     [CHR 0xE2, CHR 0x80, CHR 0x88], [CHR 0xE2, CHR 0x80, CHR 0x89],
     [CHR 0xE2, CHR 0x80, CHR 0x8A],
     [CHR 0xE2, CHR 0x80, CHR 0xA8], [CHR 0xE2, CHR 0x80, CHR 0xA9],
     [CHR 0xE2, CHR 0x80, CHR 0xAF], [CHR 0xE2, CHR 0x81, CHR 0x9F],
     [CHR 0xE3, CHR 0x80, CHR 0x80]]"

text \<open>The white space other than the line feed (what \<^verbatim>\<open>fmt\<close>'s scanner calls a space).\<close>

definition blank :: "string list" where
  "blank = filter (\<lambda>w. w \<noteq> [nl]) white_space"

text \<open>\<^term>\<open>strip_any ws s\<close> removes one leading occurrence of the first member of \<open>ws\<close>
  that \<open>s\<close> starts with.\<close>

fun strip_any :: "string list \<Rightarrow> string \<Rightarrow> string option" where
  "strip_any [] s = None"
| "strip_any (w # ws) s =
     (if prefix w s then Some (drop (length w) s) else strip_any ws s)"

fun trim_left :: "string list \<Rightarrow> string \<Rightarrow> string" where
  "trim_left ws s =
     (case strip_any ws s of
        None \<Rightarrow> s
      | Some r \<Rightarrow> if length r < length s then trim_left ws r else s)"

declare trim_left.simps [simp del]

text \<open>\<^verbatim>\<open>strings.TrimSpace\<close>: leading and trailing white space removed.\<close>

definition TrimSpace :: "string \<Rightarrow> string" where
  "TrimSpace s = rev (trim_left (map rev white_space) (rev (trim_left white_space s)))"

text \<open>\<^verbatim>\<open>strings.Split(s, "\n\n")\<close>: cut at the occurrences of two line feeds, found from
  the left and not overlapping; \<open>acc\<close> holds the bytes of the current piece, reversed.\<close>

fun split_acc :: "string \<Rightarrow> string \<Rightarrow> string list" where
  "split_acc acc [] = [rev acc]"
| "split_acc acc [c] = [rev (c # acc)]"
| "split_acc acc (c # d # cs) =
     (if c = nl \<and> d = nl then rev acc # split_acc [] cs
      else split_acc (c # acc) (d # cs))"

definition Split_paragraphs :: "string \<Rightarrow> string list" where
  "Split_paragraphs s = split_acc [] s"

text \<open>\<^verbatim>\<open>fmt.Sprintf("%d", n)\<close> for a number that is not negative (a length, a chapter
  number).\<close>

definition digit_char :: "nat \<Rightarrow> char" where
  "digit_char d = char_of (48 + d)"

fun itoa :: "nat \<Rightarrow> string" where
  "itoa n = (if n < 10 then [digit_char n] else itoa (n div 10) @ [digit_char (n mod 10)])"

declare itoa.simps [simp del]

section \<open>The scanner call of the renderer\<close>

text \<open>
  \<^verbatim>\<open>fmt.Sscanf(para, "[Code Block %d]", &blockNum)\<close> with \<^verbatim>\<open>blockNum\<close> zero before the
  call; the model returns the value of \<^verbatim>\<open>blockNum\<close> after it. The scanner matches the
  literal bytes of the format one by one; a space of the format consumes one or more spaces
  of the input (or meets its end) and never a line feed; \<^verbatim>\<open>%d\<close> skips spaces, takes an
  optional sign and the longest run of decimal digits, and converts it with
  \<^verbatim>\<open>strconv.ParseInt(tok, 10, 64)\<close>, which refuses a value outside the 64-bit range; what
  follows the digits is left to the rest of the format. On every failure the variable keeps its zero. The closing bracket of the
  format is matched after the assignment and does not change it.
\<close>

fun expect_literal :: "string \<Rightarrow> string \<Rightarrow> string option" where
  "expect_literal [] s = Some s"
| "expect_literal (c # cs) [] = None"
| "expect_literal (c # cs) (d # ds) = (if c = d then expect_literal cs ds else None)"

definition expect_space :: "string \<Rightarrow> string option" where
  "expect_space s =
     (if s = [] then Some []
      else if hd s = nl then None
      else case strip_any blank s of
             None \<Rightarrow> None
           | Some r \<Rightarrow> Some (trim_left blank r))"

definition is_digit :: "char \<Rightarrow> bool" where
  "is_digit c = (48 \<le> (of_char c :: nat) \<and> (of_char c :: nat) \<le> 57)"

definition digit_val :: "char \<Rightarrow> nat" where
  "digit_val c = of_char c - 48"

fun parse_decimal :: "nat \<Rightarrow> string \<Rightarrow> nat option" where
  "parse_decimal acc [] = Some acc"
| "parse_decimal acc (c # cs) =
     (if is_digit c then parse_decimal (10 * acc + digit_val c) cs else None)"

text \<open>\<^verbatim>\<open>strconv.ParseInt(tok, 10, 64)\<close>: an optional sign and then decimal digits, at
  least one; any other byte is a syntax error.\<close>

definition ParseInt64 :: "string \<Rightarrow> int option" where
  "ParseInt64 tok =
     (let neg = (tok \<noteq> [] \<and> hd tok = CHR ''-'');
          ds = (if tok \<noteq> [] \<and> (hd tok = CHR ''+'' \<or> hd tok = CHR ''-'') then tl tok else tok)
      in if ds = [] then None
         else case parse_decimal 0 ds of
                None \<Rightarrow> None
              | Some n \<Rightarrow>
                  if neg then (if n \<le> 2 ^ 63 then Some (- int n) else None)
                  else (if n < 2 ^ 63 then Some (int n) else None))"

definition scan_int :: "string \<Rightarrow> int" where
  "scan_int s =
     (let r = trim_left blank s
      in if r = [] \<or> hd r = nl then 0
         else let sign = (if hd r = CHR ''+'' \<or> hd r = CHR ''-'' then [hd r] else []);
                  r' = drop (length sign) r;
                  digits = takeWhile is_digit r'
              in if digits = [] then 0
                 else case ParseInt64 (sign @ digits) of None \<Rightarrow> 0 | Some v \<Rightarrow> v)"

definition Sscanf_Code_Block :: "string \<Rightarrow> int" where
  "Sscanf_Code_Block para =
     (case expect_literal ''[Code'' para of
        None \<Rightarrow> 0
      | Some r1 \<Rightarrow>
         (case expect_space r1 of
            None \<Rightarrow> 0
          | Some r2 \<Rightarrow>
             (case expect_literal ''Block'' r2 of
                None \<Rightarrow> 0
              | Some r3 \<Rightarrow>
                 (case expect_space r3 of
                    None \<Rightarrow> 0
                  | Some r4 \<Rightarrow> scan_int r4))))"

section \<open>Pages and HTML elements\<close>

text \<open>The \<^verbatim>\<open>Page\<close> struct.\<close>

record Page =
  Title :: string
  Content :: string
  URL :: string
  Headings :: "string list"
  Code :: "string list"

text \<open>
  What the callbacks read of a \<^verbatim>\<open>colly.HTMLElement\<close>. A descendant element carries its
  tag name (\<^verbatim>\<open>el.Name\<close>), its text (\<^verbatim>\<open>el.Text\<close>), whether it lies inside an element
  of class \<^verbatim>\<open>Header\<close>, its \<^verbatim>\<open>href\<close> attribute if it has one, and the texts of the
  \<^verbatim>\<open>li\<close> elements below it. The element the \<^verbatim>\<open>OnHTML\<close> callback receives is the
  URL of its request and its descendants in document order, the order in which
  \<^verbatim>\<open>ForEach\<close> and \<^verbatim>\<open>ChildText\<close> visit the matches of a selector.
\<close>

datatype element =
  Element (Name: string) (Text: string) (in_Header: bool) (href: "string option")
    (li_texts: "string list")

record HTMLElement =
  Request_URL :: string
  descendants :: "element list"

text \<open>The selectors of the callback.\<close>

definition sel_Header_h1_h1 :: "element \<Rightarrow> bool" where
  "sel_Header_h1_h1 el = ((in_Header el \<and> Name el = ''h1'') \<or> Name el = ''h1'')"

definition sel_Header_h2_h2 :: "element \<Rightarrow> bool" where
  "sel_Header_h2_h2 el = ((in_Header el \<and> Name el = ''h2'') \<or> Name el = ''h2'')"

definition sel_h2_h3 :: "element \<Rightarrow> bool" where
  "sel_h2_h3 el = (Name el = ''h2'' \<or> Name el = ''h3'')"

definition sel_content :: "element \<Rightarrow> bool" where
  "sel_content el =
     (Name el = ''p'' \<or> Name el = ''pre'' \<or> Name el = ''h2'' \<or> Name el = ''h3'' \<or>
      Name el = ''ul'' \<or> Name el = ''ol'')"

definition sel_a_href :: "element \<Rightarrow> bool" where
  "sel_a_href el = (Name el = ''a'' \<and> href el \<noteq> None)"

text \<open>\<^verbatim>\<open>e.ChildText(selector)\<close>: the texts of all matches, concatenated and trimmed.\<close>

definition ChildText :: "HTMLElement \<Rightarrow> (element \<Rightarrow> bool) \<Rightarrow> string" where
  "ChildText e sel = TrimSpace (concat (map Text (filter sel (descendants e))))"

section \<open>Extraction\<close>

definition resolve_title :: "HTMLElement \<Rightarrow> string" where
  "resolve_title e =
     (let title = TrimSpace (ChildText e sel_Header_h1_h1);
          title = (if title = [] then TrimSpace (ChildText e sel_Header_h2_h2) else title)
      in if title = [] then ''Untitled Article'' else title)"

text \<open>The bytes the source writes in front of a list item, and the placeholder of the
  \<open>n\<close>-th code block.\<close>

definition bullet :: string where
  "bullet = [CHR 0xC3, CHR 0xA2, CHR 0xE2, CHR 0x82, CHR 0xAC, CHR 0xC2, CHR 0xA2, CHR 0x20]"

definition placeholder :: "nat \<Rightarrow> string" where
  "placeholder n = ''[Code Block '' @ itoa n @ '']''"

text \<open>One round of the content loop: the \<^verbatim>\<open>switch el.Name\<close> on the builder
  \<^verbatim>\<open>content\<close> and the slice \<^verbatim>\<open>codeBlocks\<close>.\<close>

fun content_step :: "string \<times> string list \<Rightarrow> element \<Rightarrow> string \<times> string list" where
  "content_step (content, codeBlocks) el =
     (if Name el = ''h2'' \<or> Name el = ''h3'' then
        (content @ [nl] @ Text el @ [nl, nl], codeBlocks)
      else if Name el = ''p'' then
        (content @ Text el @ [nl, nl], codeBlocks)
      else if Name el = ''pre'' then
        (let codeBlocks' = codeBlocks @ [Text el]
         in (content @ placeholder (length codeBlocks') @ [nl, nl], codeBlocks'))
      else if Name el = ''ul'' \<or> Name el = ''ol'' then
        (foldl (\<lambda>c li. c @ bullet @ li @ [nl]) content (li_texts el) @ [nl], codeBlocks)
      else (content, codeBlocks))"

definition extract_page :: "HTMLElement \<Rightarrow> Page" where
  "extract_page e =
     (let title = resolve_title e;
          headings = map Text (filter sel_h2_h3 (descendants e));
          (content, codeBlocks) = foldl content_step ([], []) (filter sel_content (descendants e))
      in \<lparr>Title = title, Content = content, URL = Request_URL e,
          Headings = headings, Code = codeBlocks\<rparr>)"

section \<open>The crawl\<close>

text \<open>
  What the callbacks share: the slice \<^verbatim>\<open>pages\<close>, the map \<^verbatim>\<open>visitedURLs\<close> (only ever
  set to true, so a set of keys), the URLs handed to \<^verbatim>\<open>c.Visit\<close> by the link loop, in
  order, and the lines printed.
\<close>

record crawl_state =
  pages :: "Page list"
  visitedURLs :: "string set"
  visit_calls :: "string list"
  printed :: "string list"

definition init_state :: crawl_state where
  "init_state = \<lparr>pages = [], visitedURLs = {}, visit_calls = [], printed = []\<rparr>"

text \<open>
  The origin as \<^verbatim>\<open>url.Parse\<close> gave it (\<^verbatim>\<open>parsedURL.Scheme\<close> and
  \<^verbatim>\<open>parsedURL.Hostname()\<close>), and \<^verbatim>\<open>url.Parse(link)\<close> followed by \<^verbatim>\<open>Hostname()\<close> as a
  function of the link, \<open>None\<close> where the link does not parse.
\<close>

record origin =
  Scheme :: string
  domain :: string
  link_hostname :: "string \<Rightarrow> string option"

text \<open>One round of the link loop.\<close>

definition link_step :: "origin \<Rightarrow> crawl_state \<Rightarrow> string \<Rightarrow> crawl_state" where
  "link_step org s link =
     (if prefix ''/'' link then
        (let absoluteURL = Scheme org @ ''://'' @ domain org @ link
         in if absoluteURL \<notin> visitedURLs s
            then s\<lparr>visit_calls := visit_calls s @ [absoluteURL]\<rparr> else s)
      else if prefix ''http'' link then
        (case link_hostname org link of
           None \<Rightarrow> s
         | Some h \<Rightarrow>
             if h = domain org \<and> link \<notin> visitedURLs s
             then s\<lparr>visit_calls := visit_calls s @ [link]\<rparr> else s)
      else s)"

definition links :: "HTMLElement \<Rightarrow> string list" where
  "links e = map (\<lambda>el. case href el of None \<Rightarrow> [] | Some l \<Rightarrow> l) (filter sel_a_href (descendants e))"

text \<open>The \<^verbatim>\<open>OnHTML\<close> callback, run from its first line to its last.\<close>

definition OnHTML :: "origin \<Rightarrow> HTMLElement \<Rightarrow> crawl_state \<Rightarrow> crawl_state" where
  "OnHTML org e s =
     (let currentURL = Request_URL e
      in if currentURL \<in> visitedURLs s then s
         else let s1 = s\<lparr>pages := pages s @ [extract_page e]\<rparr>;
                  s2 = s1\<lparr>visitedURLs := insert currentURL (visitedURLs s1)\<rparr>
              in foldl (link_step org) s2 (links e))"

definition OnError :: "string \<Rightarrow> string \<Rightarrow> crawl_state \<Rightarrow> crawl_state" where
  "OnError u err s = s\<lparr>printed := printed s @ [''Error scraping '' @ u @ '': '' @ err @ [nl]]\<rparr>"

definition OnRequest :: "string \<Rightarrow> crawl_state \<Rightarrow> crawl_state" where
  "OnRequest u s = s\<lparr>printed := printed s @ [''Visiting '' @ u @ [nl]]\<rparr>"

text \<open>What the collector delivers to the callbacks between \<^verbatim>\<open>c.Visit(baseURL)\<close> and the
  return of \<^verbatim>\<open>c.Wait()\<close>, one callback after the other.\<close>

datatype callback = Request string | Failure string string | HTML HTMLElement

fun deliver :: "origin \<Rightarrow> crawl_state \<Rightarrow> callback \<Rightarrow> crawl_state" where
  "deliver org s (Request u) = OnRequest u s"
| "deliver org s (Failure u err) = OnError u err s"
| "deliver org s (HTML e) = OnHTML org e s"

definition crawl :: "origin \<Rightarrow> callback list \<Rightarrow> crawl_state" where
  "crawl org cbs = foldl (deliver org) init_state cbs"

section \<open>The content of a page as segments\<close>

text \<open>
  The specification describes the content of a page as a sequence of tagged segments; the
  source writes one string. \<^term>\<open>segments_from n els\<close> names, for each round of the content
  loop, the segment that round writes (\<open>n\<close> code blocks were collected before), and
  \<open>encode\<close> gives the bytes written for a segment.
\<close>

datatype segment =
    Heading string
  | Paragraph string
  | CodeBlockRef nat
  | ListItems "string list"

fun segments_from :: "nat \<Rightarrow> element list \<Rightarrow> segment list" where
  "segments_from n [] = []"
| "segments_from n (el # els) =
     (if Name el = ''h2'' \<or> Name el = ''h3'' then Heading (Text el) # segments_from n els
      else if Name el = ''p'' then Paragraph (Text el) # segments_from n els
      else if Name el = ''pre'' then CodeBlockRef (Suc n) # segments_from (Suc n) els
      else if Name el = ''ul'' \<or> Name el = ''ol'' then ListItems (li_texts el) # segments_from n els
      else segments_from n els)"

fun encode :: "segment \<Rightarrow> string" where
  "encode (Heading t) = [nl] @ t @ [nl, nl]"
| "encode (Paragraph t) = t @ [nl, nl]"
| "encode (CodeBlockRef i) = placeholder i @ [nl, nl]"
| "encode (ListItems lis) = concat (map (\<lambda>li. bullet @ li @ [nl]) lis) @ [nl]"

definition contentSegments :: "HTMLElement \<Rightarrow> segment list" where
  "contentSegments e = segments_from 0 (filter sel_content (descendants e))"

fun heading_texts :: "segment list \<Rightarrow> string list" where
  "heading_texts [] = []"
| "heading_texts (Heading t # segs) = t # heading_texts segs"
| "heading_texts (seg # segs) = heading_texts segs"

section \<open>Rendering\<close>

text \<open>The calls made on the \<^verbatim>\<open>gofpdf\<close> document, in order.\<close>

datatype pdf_op =
    SetAuthor string
  | SetTitle string
  | SetCreator string
  | AddPage
  | SetFont string string nat
  | SetFillColor nat nat nat
  | SetX nat
  | Cell nat nat string
  | Ln nat
  | MultiCell nat nat string string string bool

text \<open>\<^verbatim>\<open>page.Code[i]\<close>: \<open>None\<close> is the run-time panic of an index out of range.\<close>

definition index_Code :: "string list \<Rightarrow> int \<Rightarrow> string option" where
  "index_Code code i = (if 0 \<le> i \<and> i < int (length code) then Some (code ! nat i) else None)"

definition code_block_ops :: "string \<Rightarrow> pdf_op list" where
  "code_block_ops block =
     [SetFont ''Courier'' [] 10, SetFillColor 240 240 240,
      MultiCell 0 5 block [] [] True,
      SetFont ''Arial'' [] 12, SetFillColor 255 255 255, Ln 5]"

text \<open>The body of the paragraph loop; \<open>None\<close> is a panic.\<close>

definition render_paragraph :: "string list \<Rightarrow> string \<Rightarrow> pdf_op list option" where
  "render_paragraph code para =
     (if TrimSpace para = [] then Some []
      else if prefix ''[Code Block '' para then
        (let blockNum = Sscanf_Code_Block para
         in if blockNum > 0 \<and> blockNum \<le> int (length code) then
              (case index_Code code (blockNum - 1) of
                 None \<Rightarrow> None
               | Some block \<Rightarrow> Some (code_block_ops block))
            else Some [])
      else Some [MultiCell 0 6 para [] [] False, Ln 3])"

fun concat_ops :: "pdf_op list option list \<Rightarrow> pdf_op list option" where
  "concat_ops [] = Some []"
| "concat_ops (None # rs) = None"
| "concat_ops (Some ops # rs) =
     (case concat_ops rs of None \<Rightarrow> None | Some ops' \<Rightarrow> Some (ops @ ops'))"

definition render_toc_entry :: "nat \<times> Page \<Rightarrow> pdf_op list" where
  "render_toc_entry ip =
     (let chapterNum = fst ip + 1; page = snd ip
      in [SetFont ''Arial'' ''B'' 12,
          Cell 0 10 (itoa chapterNum @ ''. '' @ Title page), Ln 10,
          SetFont ''Arial'' [] 10] @
         concat (map (\<lambda>jh. [SetX 20,
                            Cell 0 8 (itoa chapterNum @ ''.'' @ itoa (fst jh + 1) @ ''. '' @ snd jh),
                            Ln 8])
                     (enumerate 0 (Headings page))) @
         [Ln 5])"

definition render_chapter :: "nat \<times> Page \<Rightarrow> pdf_op list option" where
  "render_chapter ip =
     (let i = fst ip; page = snd ip
      in case concat_ops (map (render_paragraph (Code page)) (Split_paragraphs (Content page))) of
           None \<Rightarrow> None
         | Some body \<Rightarrow>
             Some ([AddPage, SetFont ''Arial'' ''B'' 20,
                    Cell 0 10 (itoa (i + 1) @ ''. '' @ Title page), Ln 15,
                    SetFont ''Arial'' ''I'' 10,
                    Cell 0 10 (''Source: '' @ URL page), Ln 15,
                    SetFont ''Arial'' [] 12] @ body))"

definition render_document :: "Page list \<Rightarrow> pdf_op list option" where
  "render_document ps =
     (case concat_ops (map render_chapter (enumerate 0 ps)) of
        None \<Rightarrow> None
      | Some chapters \<Rightarrow>
          Some ([AddPage, SetFont ''Arial'' ''B'' 24, Cell 0 10 ''Table of Contents'', Ln 20,
                 SetFont ''Arial'' [] 12] @
                concat (map render_toc_entry (enumerate 0 ps)) @ chapters))"

text \<open>
  \<^verbatim>\<open>sort.Slice(pages, func(i, j int) bool { return pages[i].URL < pages[j].URL })\<close>.
  The library's sort is not stable; the model is the insertion sort on the key
  \<^term>\<open>URL\<close>, and the theorems on it below hold of every sorted arrangement of the pages.
\<close>

definition sort_pages :: "Page list \<Rightarrow> Page list" where
  "sort_pages ps = sort_key URL ps"

section \<open>Saving\<close>

definition normalize_output :: "string \<Rightarrow> string" where
  "normalize_output outputFile =
     (if \<not> suffix ''.pdf'' outputFile then outputFile @ ''.pdf'' else outputFile)"

datatype fs_op = MkdirAll string nat | OutputFileAndClose string

text \<open>
  What the operating system and the libraries answer: \<^verbatim>\<open>filepath.Dir\<close> as a function,
  and the errors of \<^verbatim>\<open>os.MkdirAll\<close> and \<^verbatim>\<open>pdf.OutputFileAndClose\<close> (\<open>None\<close>: no
  error). The result of saving is the calls made and the message of \<^verbatim>\<open>log.Fatal\<close>, if
  any.
\<close>

record file_system =
  filepath_Dir :: "string \<Rightarrow> string"
  MkdirAll_error :: "string \<Rightarrow> string option"
  OutputFile_error :: "string \<Rightarrow> string option"

definition save_pdf :: "file_system \<Rightarrow> string \<Rightarrow> fs_op list \<times> string option" where
  "save_pdf fs outputFile =
     (let outputFile' = normalize_output outputFile;
          outputDir = filepath_Dir fs outputFile'
      in case MkdirAll_error fs outputDir of
           Some dirErr \<Rightarrow>
             ([MkdirAll outputDir 493], Some (''Failed to create output directory: '' @ dirErr))
         | None \<Rightarrow>
             (case OutputFile_error fs outputFile' of
                Some err \<Rightarrow> ([MkdirAll outputDir 493, OutputFileAndClose outputFile'], Some err)
              | None \<Rightarrow> ([MkdirAll outputDir 493, OutputFileAndClose outputFile'], None)))"

section \<open>The timeout goroutine and the channel\<close>

text \<open>
  The main goroutine is in \<^verbatim>\<open>c.Wait()\<close>, at its send \<^verbatim>\<open>done <- true\<close> after it, or past
  that send. The timeout goroutine is in its \<^verbatim>\<open>select\<close>, at its own send
  \<^verbatim>\<open>done <- true\<close> in the branch of the expired deadline, or has returned. The channel
  \<^verbatim>\<open>done\<close> has no buffer: a send completes only when the other goroutine receives, and
  the only receive of the program is the second case of the \<^verbatim>\<open>select\<close>. The context is
  handed to nothing but that \<^verbatim>\<open>select\<close>, so the expiry of the deadline changes the
  timeout goroutine only; \<^verbatim>\<open>c.Wait()\<close> returns when the collector has no request left.
\<close>

datatype main_at = In_Wait | At_send_done | Past_send_done

datatype timer_at = In_select | At_timer_send | Returned

datatype sync_event = Deadline_expires | Wait_returns

fun sync_step :: "main_at \<times> timer_at \<Rightarrow> sync_event \<Rightarrow> main_at \<times> timer_at" where
  "sync_step (m, t) Deadline_expires = (m, if t = In_select then At_timer_send else t)"
| "sync_step (m, t) Wait_returns =
     (if m = In_Wait then
        (if t = In_select then (Past_send_done, Returned) else (At_send_done, t))
      else (m, t))"

definition sync_run :: "sync_event list \<Rightarrow> main_at \<times> timer_at" where
  "sync_run evs = foldl sync_step (In_Wait, In_select) evs"

section \<open>The program\<close>

text \<open>The command-line flags. The depth goes to the collector and the timeout to the
  context; neither is read again by the program.\<close>

record flags =
  flag_url :: string
  flag_depth :: int
  flag_output :: string
  flag_timeout :: int

text \<open>
  What the run meets outside the program: the result of \<^verbatim>\<open>url.Parse\<close> on the origin
  (its error text, or scheme and host name), the host names of links, the error that
  \<^verbatim>\<open>c.Visit(baseURL)\<close> returns, the callbacks the collector delivers, the order in which
  the deadline expires and \<^verbatim>\<open>c.Wait()\<close> returns, and the file system.
\<close>

record world =
  url_Parse :: "string \<Rightarrow> string + string \<times> string"
  hostname_of :: "string \<Rightarrow> string option"
  Visit_baseURL_error :: "string option"
  callbacks :: "callback list"
  timeline :: "sync_event list"
  files :: file_system

datatype outcome =
    Fatal string
  | Blocked
  | Panicked
  | Exit_zero "pdf_op list" "fs_op list" "string list"

definition main_program :: "flags \<Rightarrow> world \<Rightarrow> outcome" where
  "main_program fl w =
     (if flag_url fl = [] then Fatal ''Please provide a URL using the -url flag''
      else case url_Parse w (flag_url fl) of
        Inl err \<Rightarrow> Fatal (''Invalid URL: '' @ err)
      | Inr (scheme, host) \<Rightarrow>
         (let org = \<lparr>Scheme = scheme, domain = host, link_hostname = hostname_of w\<rparr>
          in if Visit_baseURL_error w \<noteq> None \<and> length (pages init_state) = 0
             then Fatal ''No pages were scraped. Exiting.''
             else
              (let s = crawl org (callbacks w)
               in if fst (sync_run (timeline w)) \<noteq> Past_send_done then Blocked
                  else
                   (let sorted = sort_pages (pages s);
                        out1 = printed s @
                          [[nl] @ ''Scraped '' @ itoa (length sorted) @ '' pages successfully.'' @ [nl]]
                    in case render_document sorted of
                         None \<Rightarrow> Panicked
                       | Some ops \<Rightarrow>
                          (case save_pdf (files w) (flag_output fl) of
                             (fops, Some msg) \<Rightarrow> Fatal msg
                           | (fops, None) \<Rightarrow>
                               Exit_zero
                                 ([SetAuthor ''PDF Scraper'', SetTitle ''Go Blog Content'',
                                   SetCreator ''PDF Scraper''] @ ops)
                                 fops
                                 (out1 @
                                  [''PDF generated successfully with '' @ itoa (length sorted) @
                                   '' pages!'' @ [nl]]))))))"

section \<open>Callbacks that overlap\<close>

text \<open>
  The collector is asynchronous and runs two requests at a time, so two callbacks can be in
  progress at once. A callback touches what it shares in four steps: the test of the visited
  set on entry; the append to \<^verbatim>\<open>pages\<close> under the mutex (the extraction before it uses
  nothing shared); the write to the visited set, outside the mutex; and the link loop, taken
  as one step, since it only reads the visited set and calls \<^verbatim>\<open>c.Visit\<close>.
  \<^term>\<open>interleave org sched (rs, s)\<close> runs the callbacks \<open>rs\<close>, each with the step it has
  reached, in the order \<open>sched\<close>, which names at each turn the callback that takes its next
  step.
\<close>

datatype progress = At_check | At_append | At_mark | At_links | Finished

fun callback_step ::
  "origin \<Rightarrow> HTMLElement \<Rightarrow> progress \<Rightarrow> crawl_state \<Rightarrow> progress \<times> crawl_state" where
  "callback_step org e At_check s =
     (if Request_URL e \<in> visitedURLs s then (Finished, s) else (At_append, s))"
| "callback_step org e At_append s = (At_mark, s\<lparr>pages := pages s @ [extract_page e]\<rparr>)"
| "callback_step org e At_mark s =
     (At_links, s\<lparr>visitedURLs := insert (Request_URL e) (visitedURLs s)\<rparr>)"
| "callback_step org e At_links s = (Finished, foldl (link_step org) s (links e))"
| "callback_step org e Finished s = (Finished, s)"

fun interleave ::
  "origin \<Rightarrow> nat list \<Rightarrow> (HTMLElement \<times> progress) list \<times> crawl_state \<Rightarrow>
     (HTMLElement \<times> progress) list \<times> crawl_state" where
  "interleave org [] cfg = cfg"
| "interleave org (i # sched) (rs, s) =
     (if i < length rs then
        (case callback_step org (fst (rs ! i)) (snd (rs ! i)) s of
           (p', s') \<Rightarrow> interleave org sched (rs[i := (fst (rs ! i), p')], s'))
      else interleave org sched (rs, s))"



section \<open>Vocabulary of the properties\<close>

text \<open>A byte that is a visible ASCII character: it starts and ends no white space.\<close>

definition printable :: "char \<Rightarrow> bool" where
  "printable c = (33 \<le> (of_char c :: nat) \<and> (of_char c :: nat) \<le> 127)"

text \<open>The texts of the \<^verbatim>\<open>pre\<close> elements, in document order.\<close>

definition pre_texts :: "element list \<Rightarrow> string list" where
  "pre_texts els = map Text (filter (\<lambda>el. Name el = ''pre'') els)"


text \<open>The trimmed text of all \<^verbatim>\<open>h1\<close> elements, and of all \<^verbatim>\<open>h2\<close> elements.\<close>

definition h1_text :: "HTMLElement \<Rightarrow> string" where
  "h1_text e = TrimSpace (ChildText e (\<lambda>el. Name el = ''h1''))"

definition h2_text :: "HTMLElement \<Rightarrow> string" where
  "h2_text e = TrimSpace (ChildText e (\<lambda>el. Name el = ''h2''))"

text \<open>
  The title as the specification words it, for comparison with \<^const>\<open>resolve_title\<close>: the
  first that is not empty of the primary heading of the header region, the secondary
  heading of the header region, any \<^verbatim>\<open>h1\<close>, any \<^verbatim>\<open>h2\<close>, and else the sentinel
  \<^verbatim>\<open>Untitled\<close>.
\<close>

definition first_nonempty :: "string list \<Rightarrow> string \<Rightarrow> string" where
  "first_nonempty cands dflt = (case filter (\<lambda>t. t \<noteq> []) cands of [] \<Rightarrow> dflt | t # ts \<Rightarrow> t)"

definition claimed_title :: "HTMLElement \<Rightarrow> string" where
  "claimed_title e =
     first_nonempty
       [TrimSpace (ChildText e (\<lambda>el. in_Header el \<and> Name el = ''h1'')),
        TrimSpace (ChildText e (\<lambda>el. in_Header el \<and> Name el = ''h2'')),
        TrimSpace (ChildText e (\<lambda>el. Name el = ''h1'')),
        TrimSpace (ChildText e (\<lambda>el. Name el = ''h2''))]
       ''Untitled''"


text \<open>
  The paragraph a segment should reach the renderer as: what the content loop writes for
  it, without the two line feeds that end it.
\<close>

fun paragraph_of :: "segment \<Rightarrow> string" where
  "paragraph_of (Heading t) = nl # t"
| "paragraph_of (Paragraph t) = t"
| "paragraph_of (CodeBlockRef i) = placeholder i"
| "paragraph_of (ListItems lis) = butlast (concat (map (\<lambda>li. bullet @ li @ [nl]) lis))"




fun segment_ops :: "string list \<Rightarrow> segment \<Rightarrow> pdf_op list" where
  "segment_ops code seg =
     (case render_paragraph code (paragraph_of seg) of None \<Rightarrow> [] | Some ops \<Rightarrow> ops)"

text \<open>Whether a run ended with exit code zero.\<close>

fun exits_zero :: "outcome \<Rightarrow> bool" where
  "exits_zero (Exit_zero ops fops out) = True"
| "exits_zero r = False"

section \<open>Example inputs\<close>

definition example_origin :: origin where
  "example_origin =
     \<lparr>Scheme = ''https'', domain = ''example.com'', link_hostname = (\<lambda>l. Some ''example.com'')\<rparr>"


definition no_headings :: HTMLElement where
  "no_headings =
     \<lparr>Request_URL = ''https://example.com/'',
      descendants = [Element ''p'' ''Hello'' False None []]\<rparr>"

definition header_h2_then_h1 :: HTMLElement where
  "header_h2_then_h1 =
     \<lparr>Request_URL = ''https://example.com/'',
      descendants = [Element ''h2'' ''Sub'' True None [], Element ''h1'' ''Main'' False None []]\<rparr>"


definition small_article :: HTMLElement where
  "small_article =
     \<lparr>Request_URL = ''https://example.com/docs'',
      descendants =
        [Element ''h1'' ''Guide'' True None [],
         Element ''h2'' ''Start'' False None [],
         Element ''p'' ''Run it.'' False None [],
         Element ''pre'' ''fn main() {}'' False None []]\<rparr>"

text \<open>A paragraph whose text ends in a line feed, followed by a code block.\<close>

definition para_then_pre :: HTMLElement where
  "para_then_pre =
     \<lparr>Request_URL = ''https://example.com/'',
      descendants =
        [Element ''p'' (''Hello'' @ [nl]) False None [],
         Element ''pre'' ''x := 1'' False None []]\<rparr>"

text \<open>A list without items, followed by a code block.\<close>

definition empty_list_then_pre :: HTMLElement where
  "empty_list_then_pre =
     \<lparr>Request_URL = ''https://example.com/'',
      descendants =
        [Element ''ul'' [] False None [],
         Element ''pre'' ''x := 1'' False None []]\<rparr>"


text \<open>A file system on which nothing fails; the directory of every path used below is
  \<^verbatim>\<open>.\<close>\<close>

definition good_files :: file_system where
  "good_files =
     \<lparr>filepath_Dir = (\<lambda>p. ''.''), MkdirAll_error = (\<lambda>d. None), OutputFile_error = (\<lambda>p. None)\<rparr>"

definition example_flags :: flags where
  "example_flags =
     \<lparr>flag_url = ''https://example.com/docs'', flag_depth = 2, flag_output = ''report'',
      flag_timeout = 1\<rparr>"

text \<open>
  A run in which the origin is fetched and one article is extracted, and the deadline
  expires before \<^verbatim>\<open>c.Wait()\<close> returns; and a run in which the request for the origin
  fails: \<^verbatim>\<open>c.Visit\<close> of the asynchronous collector has returned no error, the failure
  reaches the \<^verbatim>\<open>OnError\<close> callback, and the deadline does not expire.
\<close>

definition timed_out_world :: world where
  "timed_out_world =
     \<lparr>url_Parse = (\<lambda>u. Inr (''https'', ''example.com'')),
      hostname_of = (\<lambda>l. Some ''example.com''),
      Visit_baseURL_error = None,
      callbacks = [Request ''https://example.com/docs'', HTML small_article],
      timeline = [Deadline_expires, Wait_returns],
      files = good_files\<rparr>"

definition origin_down_world :: world where
  "origin_down_world =
     \<lparr>url_Parse = (\<lambda>u. Inr (''https'', ''example.com'')),
      hostname_of = (\<lambda>l. Some ''example.com''),
      Visit_baseURL_error = None,
      callbacks = [Request ''https://example.com/docs'',
                   Failure ''https://example.com/docs'' ''no such host''],
      timeline = [Wait_returns],
      files = good_files\<rparr>"

section \<open>The page store and the visited set\<close>












text \<open>The four steps of one callback, taken in a row, are the callback.\<close>

lemma callback_steps_are_OnHTML:
  "snd (interleave org [0, 0, 0, 0] ([(e, At_check)], s)) = OnHTML org e s"
  by (simp add: OnHTML_def Let_def)










section \<open>Links\<close>

lemma visit_call_changes_state: "s\<lparr>visit_calls := visit_calls s @ [u]\<rparr> \<noteq> s"
proof
  assume "s\<lparr>visit_calls := visit_calls s @ [u]\<rparr> = s"
  then have "visit_calls (s\<lparr>visit_calls := visit_calls s @ [u]\<rparr>) = visit_calls s"
    by simp
  then show False by simp
qed

lemma slash_not_http: "prefix ''/'' link \<Longrightarrow> \<not> prefix ''http'' link"
  by (cases link) auto

text \<open>
  Claim C4, as amended. For a link that does not start with two slashes: the link loop
  hands a URL to \<^verbatim>\<open>c.Visit\<close> exactly when the link starts with a slash and the origin's
  scheme and host followed by the link is not in the visited set, or the link starts with
  \<^verbatim>\<open>http\<close>, parses, has the origin's host name and is not in the visited set; the URL
  handed over is the resolved one in the first case and the link itself in the second.
  Every other link leaves the state as it is.
\<close>

theorem link_enqueued_iff:
  assumes "\<not> prefix ''//'' link"
  shows
    "((link_step org s link \<noteq> s) =
        ((prefix ''/'' link \<and> Scheme org @ ''://'' @ domain org @ link \<notin> visitedURLs s) \<or>
         (prefix ''http'' link \<and> link_hostname org link = Some (domain org) \<and>
          link \<notin> visitedURLs s))) \<and>
     (link_step org s link = s \<or>
      link_step org s link =
        s\<lparr>visit_calls := visit_calls s @
            [if prefix ''/'' link then Scheme org @ ''://'' @ domain org @ link else link]\<rparr>)"
proof -
  have "(link_step org s link \<noteq> s) =
        ((prefix ''/'' link \<and> Scheme org @ ''://'' @ domain org @ link \<notin> visitedURLs s) \<or>
         (prefix ''http'' link \<and> link_hostname org link = Some (domain org) \<and>
          link \<notin> visitedURLs s))"
    using visit_call_changes_state [of s] slash_not_http [of link]
    by (auto simp add: link_step_def Let_def split: option.splits)
  moreover have "link_step org s link = s \<or>
      link_step org s link =
        s\<lparr>visit_calls := visit_calls s @
            [if prefix ''/'' link then Scheme org @ ''://'' @ domain org @ link else link]\<rparr>"
    by (auto simp add: link_step_def Let_def split: option.splits)
  ultimately show ?thesis by simp
qed

theorem link_enqueued_iff_witness:
  "\<not> prefix ''//'' ''/docs/a'' \<and>
   link_step example_origin init_state ''/docs/a'' =
     init_state\<lparr>visit_calls := [''https://example.com/docs/a'']\<rparr> \<and>
   \<not> prefix ''//'' ''mailto:someone@example.com'' \<and>
   link_step example_origin init_state ''mailto:someone@example.com'' = init_state"
proof -
  have a: "\<not> prefix ''//'' ''/docs/a''" and b: "\<not> prefix ''//'' ''mailto:someone@example.com''"
    by simp_all
  show ?thesis
    using a b link_enqueued_iff [OF a, of example_origin init_state]
      link_enqueued_iff [OF b, of example_origin init_state]
    by (auto simp add: example_origin_def init_state_def)
qed

text \<open>
  Claim C4, as stated, fails: a link with an explicit scheme and the origin's host name
  is not enqueued when its scheme does not start with \<^verbatim>\<open>http\<close>.
\<close>

theorem ftp_link_not_enqueued:
  "link_hostname example_origin ''ftp://example.com/a'' = Some (domain example_origin) \<and>
   link_step example_origin init_state ''ftp://example.com/a'' = init_state"
  by (simp add: link_step_def example_origin_def)

section \<open>Titles\<close>

lemma sel_Header_h1_h1_eq: "sel_Header_h1_h1 = (\<lambda>el. Name el = ''h1'')"
  by (auto simp add: sel_Header_h1_h1_def fun_eq_iff)

lemma sel_Header_h2_h2_eq: "sel_Header_h2_h2 = (\<lambda>el. Name el = ''h2'')"
  by (auto simp add: sel_Header_h2_h2_def fun_eq_iff)

text \<open>
  Claim C6, as amended. The title is the trimmed text of all \<^verbatim>\<open>h1\<close> elements of the
  article, inside the header region or not, when that is not empty; else the trimmed text
  of all its \<^verbatim>\<open>h2\<close> elements when that is not empty; else \<^verbatim>\<open>Untitled Article\<close>. It is
  never empty.
\<close>

theorem title_resolution:
  "resolve_title e \<noteq> [] \<and>
   resolve_title e =
     (if h1_text e \<noteq> [] then h1_text e
      else if h2_text e \<noteq> [] then h2_text e
      else ''Untitled Article'')"
  by (simp add: resolve_title_def Let_def sel_Header_h1_h1_eq sel_Header_h2_h2_eq
      h1_text_def h2_text_def)

text \<open>
  Claim C6, as stated, fails twice: without a heading the title is
  \<^verbatim>\<open>Untitled Article\<close>, not \<^verbatim>\<open>Untitled\<close>; and an \<^verbatim>\<open>h1\<close> outside the header region
  wins over an \<^verbatim>\<open>h2\<close> inside it.
\<close>

theorem title_differs_from_claimed:
  "resolve_title no_headings = ''Untitled Article'' \<and>
   claimed_title no_headings = ''Untitled'' \<and>
   resolve_title header_h2_then_h1 = ''Main'' \<and>
   claimed_title header_h2_then_h1 = ''Sub''"
  by code_simp

section \<open>Content and headings\<close>

lemma foldl_list_items:
  "foldl (\<lambda>c li. c @ bullet @ li @ [nl]) c lis =
     c @ concat (map (\<lambda>li. bullet @ li @ [nl]) lis)"
  by (induction lis arbitrary: c) simp_all

lemma foldl_content_step:
  "foldl content_step (c, cbs) els =
     (c @ concat (map encode (segments_from (length cbs) els)), cbs @ pre_texts els)"
  by (induction els arbitrary: c cbs) (simp_all add: foldl_list_items Let_def pre_texts_def)

lemma Content_extract_page: "Content (extract_page e) = concat (map encode (contentSegments e))"
  using foldl_content_step [of "[]" "[]" "filter sel_content (descendants e)"]
  by (simp add: extract_page_def contentSegments_def Let_def)


lemma Headings_extract_page:
  "Headings (extract_page e) = map Text (filter sel_h2_h3 (descendants e))"
  by (simp add: extract_page_def Let_def split: prod.splits)

lemma heading_texts_segments:
  "heading_texts (segments_from n els) = map Text (filter sel_h2_h3 els)"
  by (induction els arbitrary: n) (simp_all add: sel_h2_h3_def)

lemma filter_headings_of_content:
  "filter (\<lambda>el. sel_content el \<and> sel_h2_h3 el) els = filter sel_h2_h3 els"
  by (induction els) (auto simp add: sel_h2_h3_def sel_content_def)

text \<open>
  Claim C9. The content string of a page is the concatenation of the encodings of its
  segments, and the headings list is the list of the texts of the heading segments, in the
  same order; so it is a subsequence of them.
\<close>

theorem headings_are_heading_segments:
  "Content (extract_page e) = concat (map encode (contentSegments e)) \<and>
   Headings (extract_page e) = heading_texts (contentSegments e) \<and>
   subseq (Headings (extract_page e)) (heading_texts (contentSegments e))"
proof -
  have "Headings (extract_page e) = heading_texts (contentSegments e)"
    by (simp add: Headings_extract_page contentSegments_def heading_texts_segments
        filter_headings_of_content)
  then show ?thesis by (simp add: Content_extract_page)
qed

section \<open>Numbers and placeholders\<close>

lemma of_char_digit_char: "d < 10 \<Longrightarrow> (of_char (digit_char d) :: nat) = 48 + d"
  by (simp add: digit_char_def)

lemma is_digit_digit_char: "d < 10 \<Longrightarrow> is_digit (digit_char d)"
  by (simp add: is_digit_def of_char_digit_char)

lemma digit_val_digit_char: "d < 10 \<Longrightarrow> digit_val (digit_char d) = d"
  by (simp add: digit_val_def of_char_digit_char)

lemma itoa_digits: "c \<in> set (itoa n) \<Longrightarrow> is_digit c"
proof (induction n arbitrary: c rule: itoa.induct)
  case (1 n)
  show ?case
  proof (cases "n < 10")
    case True
    with "1.prems" show ?thesis by (simp add: itoa.simps [of n] is_digit_digit_char)
  next
    case False
    with "1.prems" "1.IH" show ?thesis
      by (auto simp add: itoa.simps [of n] is_digit_digit_char)
  qed
qed

lemma itoa_nonempty: "itoa n \<noteq> []"
  by (subst itoa.simps) simp

lemma parse_decimal_snoc:
  "parse_decimal a (ds @ [c]) =
     (case parse_decimal a ds of
        None \<Rightarrow> None
      | Some v \<Rightarrow> if is_digit c then Some (10 * v + digit_val c) else None)"
  by (induction ds arbitrary: a) simp_all

text \<open>Reading back what \<^verbatim>\<open>%d\<close> printed gives the number.\<close>

lemma parse_decimal_itoa: "parse_decimal 0 (itoa n) = Some n"
proof (induction n rule: itoa.induct)
  case (1 n)
  show ?case
  proof (cases "n < 10")
    case True
    then show ?thesis
      by (simp add: itoa.simps [of n] is_digit_digit_char digit_val_digit_char)
  next
    case False
    with "1.IH" show ?thesis
      by (simp add: itoa.simps [of n] parse_decimal_snoc is_digit_digit_char
          digit_val_digit_char)
  qed
qed

lemma white_space_first_byte:
  "w \<in> set white_space \<Longrightarrow>
     w \<noteq> [] \<and> ((of_char (hd w) :: nat) \<le> 32 \<or> 194 \<le> (of_char (hd w) :: nat))"
  unfolding white_space_def by fastforce

lemma white_space_last_byte:
  "w \<in> set white_space \<Longrightarrow>
     w \<noteq> [] \<and> ((of_char (last w) :: nat) \<le> 32 \<or> 128 \<le> (of_char (last w) :: nat))"
  unfolding white_space_def by fastforce

lemma strip_any_None:
  "(\<And>w. w \<in> set ws \<Longrightarrow> w \<noteq> [] \<and> hd w \<noteq> c) \<Longrightarrow> strip_any ws (c # r) = None"
proof (induction ws)
  case Nil
  show ?case by simp
next
  case (Cons w ws)
  have "w \<noteq> [] \<and> hd w \<noteq> c" using Cons.prems [of w] by simp
  then have "\<not> prefix w (c # r)" by (cases w) auto
  moreover have "strip_any ws (c # r) = None" using Cons by simp
  ultimately show ?case by simp
qed

lemma strip_any_white_space_printable:
  assumes "printable c"
  shows "strip_any white_space (c # r) = None"
proof (rule strip_any_None)
  fix w assume "w \<in> set white_space"
  from white_space_first_byte [OF this] assms show "w \<noteq> [] \<and> hd w \<noteq> c"
    by (auto simp add: printable_def)
qed

lemma strip_any_blank_printable:
  assumes "printable c"
  shows "strip_any blank (c # r) = None"
proof (rule strip_any_None)
  fix w assume "w \<in> set blank"
  then have "w \<in> set white_space" by (simp add: blank_def)
  from white_space_first_byte [OF this] assms show "w \<noteq> [] \<and> hd w \<noteq> c"
    by (auto simp add: printable_def)
qed

lemma strip_any_rev_white_space_printable:
  assumes "printable c"
  shows "strip_any (map rev white_space) (c # r) = None"
proof (rule strip_any_None)
  fix w assume "w \<in> set (map rev white_space)"
  then obtain v where v: "v \<in> set white_space" and w: "w = rev v" by auto
  from white_space_last_byte [OF v] assms w show "w \<noteq> [] \<and> hd w \<noteq> c"
    by (auto simp add: printable_def hd_rev)
qed

lemma trim_left_unchanged:
  "strip_any ws (c # r) = None \<Longrightarrow> trim_left ws (c # r) = c # r"
  by (subst trim_left.simps) simp

lemma is_digit_printable: "is_digit c \<Longrightarrow> printable c"
  by (simp add: is_digit_def printable_def)

lemma hd_itoa_digit: "is_digit (hd (itoa n))"
  using itoa_nonempty [of n] itoa_digits [of "hd (itoa n)" n] by simp

lemma trim_left_blank_itoa: "trim_left blank (itoa n @ r) = itoa n @ r"
proof -
  obtain c cs where eq: "itoa n = c # cs"
    using itoa_nonempty [of n] by (cases "itoa n") auto
  then have "is_digit c" using hd_itoa_digit [of n] by simp
  then have "strip_any blank (c # cs @ r) = None"
    by (simp add: is_digit_printable strip_any_blank_printable)
  then show ?thesis using eq by (simp add: trim_left_unchanged)
qed

lemma takeWhile_itoa: "takeWhile is_digit (itoa n @ '']'') = itoa n"
proof -
  have "\<And>c. c \<in> set (itoa n) \<Longrightarrow> is_digit c"
    by (simp add: itoa_digits)
  moreover have "\<not> is_digit (CHR '']'')"
    by (simp add: is_digit_def)
  ultimately show ?thesis by (simp add: takeWhile_append2)
qed

lemma digit_not_special: "is_digit c \<Longrightarrow> c \<noteq> nl \<and> c \<noteq> CHR ''+'' \<and> c \<noteq> CHR ''-''"
  by (auto simp add: is_digit_def nl_def)

lemma ParseInt64_itoa: "n < 2 ^ 63 \<Longrightarrow> ParseInt64 (itoa n) = Some (int n)"
  using itoa_nonempty [of n] hd_itoa_digit [of n] digit_not_special [of "hd (itoa n)"]
  by (simp add: ParseInt64_def parse_decimal_itoa)

lemma scan_int_itoa: "n < 2 ^ 63 \<Longrightarrow> scan_int (itoa n @ '']'') = int n"
  using itoa_nonempty [of n] hd_itoa_digit [of n] digit_not_special [of "hd (itoa n)"]
  by (simp add: scan_int_def trim_left_blank_itoa takeWhile_itoa ParseInt64_itoa)

lemma strip_any_blank_space: "strip_any blank (CHR '' '' # r) = Some r"
  by (simp add: blank_def white_space_def nl_def)

lemma expect_space_B: "expect_space (CHR '' '' # CHR ''B'' # r) = Some (CHR ''B'' # r)"
proof -
  have "printable (CHR ''B'')" by (simp add: printable_def)
  then have "trim_left blank (CHR ''B'' # r) = CHR ''B'' # r"
    by (simp add: trim_left_unchanged strip_any_blank_printable)
  then show ?thesis by (simp add: expect_space_def strip_any_blank_space nl_def)
qed

lemma expect_space_itoa: "expect_space (CHR '' '' # itoa n @ r) = Some (itoa n @ r)"
  by (simp add: expect_space_def strip_any_blank_space nl_def trim_left_blank_itoa)

text \<open>The scanner reads from a placeholder the number the extractor printed into it.\<close>

lemma Sscanf_placeholder: "n < 2 ^ 63 \<Longrightarrow> Sscanf_Code_Block (placeholder n) = int n"
  by (simp add: Sscanf_Code_Block_def placeholder_def expect_space_B expect_space_itoa
      scan_int_itoa)

lemma TrimSpace_placeholder: "TrimSpace (placeholder n) = placeholder n"
proof -
  have a: "printable (CHR ''['')" and b: "printable (CHR '']'')"
    by (simp_all add: printable_def)
  have "trim_left white_space (placeholder n) = placeholder n"
    using a by (simp add: placeholder_def trim_left_unchanged strip_any_white_space_printable)
  moreover have "trim_left (map rev white_space) (rev (placeholder n)) = rev (placeholder n)"
    using b
    by (simp add: placeholder_def trim_left_unchanged strip_any_rev_white_space_printable)
  ultimately show ?thesis by (simp add: TrimSpace_def)
qed

lemma render_placeholder:
  assumes "1 \<le> i" and "i \<le> length code" and "length code < 2 ^ 63"
  shows "render_paragraph code (placeholder i) = Some (code_block_ops (code ! (i - 1)))"
proof -
  have "i < 2 ^ 63" using assms by simp
  then have s: "Sscanf_Code_Block (placeholder i) = int i" by (rule Sscanf_placeholder)
  have p: "prefix ''[Code Block '' (placeholder i)" by (simp add: placeholder_def)
  have ne: "placeholder i \<noteq> []" by (simp add: placeholder_def)
  have "nat (int i - 1) = i - 1" by simp
  with assms s p ne show ?thesis
    by (simp add: render_paragraph_def TrimSpace_placeholder index_Code_def Let_def)
qed

text \<open>No paragraph makes the renderer index the code blocks out of range.\<close>

lemma render_paragraph_no_panic: "render_paragraph code para \<noteq> None"
proof (cases "0 < Sscanf_Code_Block para \<and> Sscanf_Code_Block para \<le> int (length code)")
  case True
  then have "index_Code code (Sscanf_Code_Block para - 1) =
      Some (code ! nat (Sscanf_Code_Block para - 1))"
    by (simp add: index_Code_def)
  with True show ?thesis by (simp add: render_paragraph_def Let_def)
next
  case False
  then show ?thesis by (auto simp add: render_paragraph_def Let_def)
qed

section \<open>Code blocks\<close>











lemma segment_ops_CodeBlockRef:
  assumes "1 \<le> i" and "i \<le> length code" and "length code < 2 ^ 63"
  shows "segment_ops code (CodeBlockRef i) = code_block_ops (code ! (i - 1))"
  using render_placeholder [OF assms] by simp






section \<open>Paragraphs of the renderer\<close>

text \<open>
  Claim C10. A paragraph that starts with \<^verbatim>\<open>[Code Block \<close> and whose scanned number is
  not between 1 and the number of code blocks (zero when no number could be scanned)
  produces no output at all, and no paragraph makes the renderer index the code blocks out
  of range.
\<close>

theorem bad_block_number_omitted:
  "render_paragraph code para \<noteq> None \<and>
   (prefix ''[Code Block '' para \<and>
    \<not> (0 < Sscanf_Code_Block para \<and> Sscanf_Code_Block para \<le> int (length code))
    \<longrightarrow> render_paragraph code para = Some [])"
  using render_paragraph_no_panic [of code para]
  by (simp add: render_paragraph_def Let_def)

theorem bad_block_number_omitted_witness:
  "prefix ''[Code Block '' ''[Code Block 7]'' \<and>
   Sscanf_Code_Block ''[Code Block 7]'' = 7 \<and>
   render_paragraph [''only one''] ''[Code Block 7]'' = Some [] \<and>
   prefix ''[Code Block '' ''[Code Block x]'' \<and>
   Sscanf_Code_Block ''[Code Block x]'' = 0 \<and>
   render_paragraph [''only one''] ''[Code Block x]'' = Some []"
proof -
  have "placeholder 7 = ''[Code Block 7]''" by code_simp
  then have a: "Sscanf_Code_Block ''[Code Block 7]'' = 7"
    using Sscanf_placeholder [of 7] by simp
  have x: "printable (CHR ''x'')" by (simp add: printable_def)
  then have "trim_left blank ''x]'' = ''x]''"
    by (simp add: trim_left_unchanged strip_any_blank_printable)
  then have "scan_int ''x]'' = 0"
    by (simp add: scan_int_def is_digit_def nl_def)
  moreover have "expect_space '' x]'' = Some ''x]''"
    using x
    by (simp add: expect_space_def strip_any_blank_space nl_def trim_left_unchanged
        strip_any_blank_printable)
  ultimately have b: "Sscanf_Code_Block ''[Code Block x]'' = 0"
    by (simp add: Sscanf_Code_Block_def expect_space_B)
  show ?thesis
    using a b bad_block_number_omitted [of "[''only one'']" "''[Code Block 7]''"]
      bad_block_number_omitted [of "[''only one'']" "''[Code Block x]''"]
    by simp
qed

section \<open>Ordering of the chapters\<close>







section \<open>The output path\<close>

text \<open>
  Claim C8. The path the artifact is written to ends in \<^verbatim>\<open>.pdf\<close>: it is the value of
  the flag when that ends in \<^verbatim>\<open>.pdf\<close> and the value followed by \<^verbatim>\<open>.pdf\<close> otherwise, so
  \<^verbatim>\<open>report\<close> gives \<^verbatim>\<open>report.pdf\<close>. The first call on the file system is
  \<^verbatim>\<open>os.MkdirAll\<close> on the directory of that path, and the artifact is written, to that
  path, only after that call succeeded.
\<close>

theorem output_path_normalized:
  "suffix ''.pdf'' (normalize_output f) \<and>
   normalize_output f = (if suffix ''.pdf'' f then f else f @ ''.pdf'') \<and>
   normalize_output ''report'' = ''report.pdf'' \<and>
   fst (save_pdf fs f) =
     MkdirAll (filepath_Dir fs (normalize_output f)) 493 #
     (if MkdirAll_error fs (filepath_Dir fs (normalize_output f)) = None
      then [OutputFileAndClose (normalize_output f)] else [])"
proof -
  have "suffix ''.pdf'' (normalize_output f)"
    by (simp add: normalize_output_def suffix_def)
  moreover have "normalize_output ''report'' = ''report.pdf''"
    by (simp add: normalize_output_def suffix_to_prefix)
  ultimately show ?thesis
    by (simp add: save_pdf_def Let_def normalize_output_def split: option.splits)
qed

section \<open>The deadline\<close>

lemma sync_stuck:
  "t \<noteq> In_select \<Longrightarrow> m \<noteq> Past_send_done \<Longrightarrow>
     fst (foldl sync_step (m, t) evs) \<noteq> Past_send_done"
proof (induction evs arbitrary: m t)
  case Nil
  then show ?case by simp
next
  case (Cons ev evs)
  then show ?case by (cases ev) simp_all
qed

lemma sync_in_time: "sync_run [Wait_returns] = (Past_send_done, Returned)"
  by (simp add: sync_run_def)

lemma deadline_first: "fst (sync_run (Deadline_expires # evs)) \<noteq> Past_send_done"
  by (simp add: sync_run_def sync_stuck)

text \<open>
  Claim C5 does not hold of the code. Once the deadline has expired while the main
  goroutine is still in \<^verbatim>\<open>c.Wait()\<close>, the timeout goroutine stands at its send on
  \<^verbatim>\<open>done\<close>, and the send of the main goroutine after \<^verbatim>\<open>c.Wait()\<close> finds no receiver:
  whatever happens later, the program never passes that send. It does not sort, render or
  save, and does not exit with code zero; the run ends only by one of the fatal errors that
  come before the crawl.
\<close>

theorem deadline_blocks_program:
  "\<not> exits_zero (main_program fl (w\<lparr>timeline := Deadline_expires # evs\<rparr>)) \<and>
   main_program fl (w\<lparr>timeline := Deadline_expires # evs\<rparr>) =
     (if flag_url fl = [] then Fatal ''Please provide a URL using the -url flag''
      else case url_Parse w (flag_url fl) of
        Inl err \<Rightarrow> Fatal (''Invalid URL: '' @ err)
      | Inr parsed \<Rightarrow>
          if Visit_baseURL_error w \<noteq> None then Fatal ''No pages were scraped. Exiting.''
          else Blocked)"
proof -
  have "main_program fl (w\<lparr>timeline := Deadline_expires # evs\<rparr>) =
     (if flag_url fl = [] then Fatal ''Please provide a URL using the -url flag''
      else case url_Parse w (flag_url fl) of
        Inl err \<Rightarrow> Fatal (''Invalid URL: '' @ err)
      | Inr parsed \<Rightarrow>
          if Visit_baseURL_error w \<noteq> None then Fatal ''No pages were scraped. Exiting.''
          else Blocked)"
    using deadline_first [of evs]
    by (auto simp add: main_program_def Let_def init_state_def split: sum.splits)
  then show ?thesis by (auto split: sum.splits)
qed

lemma timed_out_run: "main_program example_flags timed_out_world = Blocked"
  by (simp add: main_program_def example_flags_def timed_out_world_def sync_run_def
      init_state_def Let_def)

section \<open>Failures\<close>

lemma Failure_only_prints:
  "deliver org s (Failure u err) =
     s\<lparr>printed := printed s @ [''Error scraping '' @ u @ '': '' @ err @ [nl]]\<rparr>"
  by (simp add: OnError_def)

lemma Visit_error_is_fatal:
  "flag_url fl \<noteq> [] \<Longrightarrow> url_Parse w (flag_url fl) = Inr parsed \<Longrightarrow>
   Visit_baseURL_error w \<noteq> None \<Longrightarrow>
     main_program fl w = Fatal ''No pages were scraped. Exiting.''"
  by (auto simp add: main_program_def Let_def init_state_def split: prod.splits)

text \<open>
  Claim C7 does not hold of the code. When the request for the origin fails, the failure
  reaches the \<^verbatim>\<open>OnError\<close> callback, which prints a line; \<^verbatim>\<open>c.Visit(baseURL)\<close> of the
  asynchronous collector has returned no error, so the test for zero pages is not reached.
  The program renders a document of no chapter, writes it and exits with code zero.
\<close>

theorem origin_failure_exits_zero:
  "main_program example_flags origin_down_world =
     Exit_zero
       [SetAuthor ''PDF Scraper'', SetTitle ''Go Blog Content'', SetCreator ''PDF Scraper'',
        AddPage, SetFont ''Arial'' ''B'' 24, Cell 0 10 ''Table of Contents'', Ln 20,
        SetFont ''Arial'' [] 12]
       [MkdirAll ''.'' 493, OutputFileAndClose ''report.pdf'']
       [''Visiting https://example.com/docs'' @ [nl],
        ''Error scraping https://example.com/docs: no such host'' @ [nl],
        [nl] @ ''Scraped 0 pages successfully.'' @ [nl],
        ''PDF generated successfully with 0 pages!'' @ [nl]]"
  by code_simp

section \<open>Examples and edge cases\<close>

text \<open>No chapter and no document makes the renderer index out of range.\<close>

lemma concat_ops_no_panic: "(\<And>r. r \<in> set rs \<Longrightarrow> r \<noteq> None) \<Longrightarrow> concat_ops rs \<noteq> None"
proof (induction rs)
  case Nil
  show ?case by simp
next
  case (Cons r rs)
  obtain ops where "r = Some ops" using Cons.prems [of r] by auto
  moreover have "concat_ops rs \<noteq> None" using Cons by simp
  ultimately show ?case by auto
qed

lemma render_chapter_no_panic: "render_chapter ip \<noteq> None"
proof -
  have "concat_ops (map (render_paragraph (Code (snd ip))) (Split_paragraphs (Content (snd ip))))
      \<noteq> None"
  proof (rule concat_ops_no_panic)
    fix r
    assume "r \<in> set (map (render_paragraph (Code (snd ip)))
      (Split_paragraphs (Content (snd ip))))"
    then obtain para where "r = render_paragraph (Code (snd ip)) para" by auto
    then show "r \<noteq> None" using render_paragraph_no_panic by blast
  qed
  then show ?thesis by (auto simp add: render_chapter_def Let_def)
qed

lemma render_document_no_panic: "render_document ps \<noteq> None"
proof -
  have "concat_ops (map render_chapter (enumerate 0 ps)) \<noteq> None"
  proof (rule concat_ops_no_panic)
    fix r
    assume "r \<in> set (map render_chapter (enumerate 0 ps))"
    then obtain ip where "r = render_chapter ip" by auto
    then show "r \<noteq> None" using render_chapter_no_panic by blast
  qed
  then show ?thesis by (auto simp add: render_document_def)
qed

lemma main_program_no_panic: "main_program fl w \<noteq> Panicked"
proof (cases "flag_url fl = []")
  case True
  then show ?thesis by (simp add: main_program_def)
next
  case False
  show ?thesis
  proof (cases "url_Parse w (flag_url fl)")
    case (Inl err)
    with False show ?thesis by (simp add: main_program_def)
  next
    case (Inr sh)
    obtain sch h where sh: "sh = (sch, h)" by (cases sh)
    define ps where "ps = sort_pages (pages (crawl
      \<lparr>Scheme = sch, domain = h, link_hostname = hostname_of w\<rparr> (callbacks w)))"
    obtain ops where ops: "render_document ps = Some ops"
      using render_document_no_panic [of ps] by auto
    obtain fops msg where sv: "save_pdf (files w) (flag_output fl) = (fops, msg)"
      by (cases "save_pdf (files w) (flag_output fl)")
    show ?thesis
      using False Inr sh ops sv unfolding main_program_def Let_def ps_def
      by (cases msg) simp_all
  qed
qed

text \<open>
  A page with a heading, a paragraph and one \<^verbatim>\<open>pre\<close> block: the content holds one
  placeholder, and the chapter shows the block as monospace text, byte for byte.
\<close>

lemma small_article_chapter:
  "extract_page small_article =
     \<lparr>Title = ''Guide'',
      Content = [nl] @ ''Start'' @ [nl, nl] @ ''Run it.'' @ [nl, nl] @ ''[Code Block 1]'' @ [nl, nl],
      URL = ''https://example.com/docs'', Headings = [''Start''], Code = [''fn main() {}'']\<rparr> \<and>
   render_chapter (0, extract_page small_article) =
     Some [AddPage, SetFont ''Arial'' ''B'' 20, Cell 0 10 ''1. Guide'', Ln 15,
           SetFont ''Arial'' ''I'' 10, Cell 0 10 ''Source: https://example.com/docs'', Ln 15,
           SetFont ''Arial'' [] 12,
           MultiCell 0 6 ([nl] @ ''Start'') [] [] False, Ln 3,
           MultiCell 0 6 ''Run it.'' [] [] False, Ln 3,
           SetFont ''Courier'' [] 10, SetFillColor 240 240 240,
           MultiCell 0 5 ''fn main() {}'' [] [] True,
           SetFont ''Arial'' [] 12, SetFillColor 255 255 255, Ln 5]"
proof -
  have page: "extract_page small_article =
     \<lparr>Title = ''Guide'',
      Content = [nl] @ ''Start'' @ [nl, nl] @ ''Run it.'' @ [nl, nl] @ ''[Code Block 1]'' @ [nl, nl],
      URL = ''https://example.com/docs'', Headings = [''Start''], Code = [''fn main() {}'']\<rparr>"
    by code_simp
  have cut: "Split_paragraphs
      ([nl] @ ''Start'' @ [nl, nl] @ ''Run it.'' @ [nl, nl] @ ''[Code Block 1]'' @ [nl, nl]) =
      [[nl] @ ''Start'', ''Run it.'', ''[Code Block 1]'', []]"
    by code_simp
  have p1: "render_paragraph [''fn main() {}''] ([nl] @ ''Start'') =
      Some [MultiCell 0 6 ([nl] @ ''Start'') [] [] False, Ln 3]"
    by code_simp
  have p2: "render_paragraph [''fn main() {}''] ''Run it.'' =
      Some [MultiCell 0 6 ''Run it.'' [] [] False, Ln 3]"
    by code_simp
  have "placeholder 1 = ''[Code Block 1]''" by code_simp
  with render_placeholder [of 1 "[''fn main() {}'']"]
  have p3: "render_paragraph [''fn main() {}''] ''[Code Block 1]'' =
      Some (code_block_ops ''fn main() {}'')"
    by simp
  have p4: "render_paragraph [''fn main() {}''] [] = Some []"
    by code_simp
  have one: "itoa (Suc 0) = ''1''" by code_simp
  show ?thesis
    unfolding page
    by (simp add: render_chapter_def Let_def cut [simplified] p1 [simplified] p2 p3 p4
        code_block_ops_def one)
qed

text \<open>A link that starts with two slashes is resolved like a path of the origin.\<close>

lemma scheme_relative_link:
  "link_step example_origin init_state ''//other.org/x'' =
     init_state\<lparr>visit_calls := [''https://example.com//other.org/x'']\<rparr>"
  by (simp add: link_step_def example_origin_def init_state_def)

text \<open>
  The scanner stops at the first character that is not a digit: an underscore after the
  digits ends the number, and the number read so far is kept.
\<close>

lemma digits_then_underscore: "Sscanf_Code_Block ''[Code Block 1_0]'' = 1"
proof -
  have d: "printable (CHR ''1'')" by (simp add: printable_def)
  then have "trim_left blank ''1_0]'' = ''1_0]''"
    by (simp add: trim_left_unchanged strip_any_blank_printable)
  moreover have "parse_decimal 0 ''1'' = Some 1"
    by (simp add: is_digit_def digit_val_def)
  ultimately have "scan_int ''1_0]'' = 1"
    by (simp add: scan_int_def ParseInt64_def is_digit_def nl_def)
  moreover have "expect_space '' 1_0]'' = Some ''1_0]''"
    using d
    by (simp add: expect_space_def strip_any_blank_space nl_def trim_left_unchanged
        strip_any_blank_printable)
  ultimately show ?thesis
    by (simp add: Sscanf_Code_Block_def expect_space_B)
qed

text \<open>
  An empty list writes one line feed, which the cut leaves in front of the placeholder
  that follows: the placeholder is printed as a paragraph instead of the block.
\<close>

lemma placeholder_after_empty_list:
  "Split_paragraphs (Content (extract_page empty_list_then_pre)) =
     [[nl] @ ''[Code Block 1]'', []] \<and>
   render_chapter (0, extract_page empty_list_then_pre) =
     Some [AddPage, SetFont ''Arial'' ''B'' 20, Cell 0 10 ''1. Untitled Article'', Ln 15,
           SetFont ''Arial'' ''I'' 10, Cell 0 10 ''Source: https://example.com/'', Ln 15,
           SetFont ''Arial'' [] 12,
           MultiCell 0 6 ([nl] @ ''[Code Block 1]'') [] [] False, Ln 3]"
  by code_simp

text \<open>
  When the text before a code block ends in a line feed, the cut at two line feeds leaves
  a line feed in front of the placeholder, and the renderer prints the placeholder as a
  paragraph instead of the block.
\<close>

lemma placeholder_after_line_feed:
  "Split_paragraphs (Content (extract_page para_then_pre)) =
     [''Hello'', [nl] @ ''[Code Block 1]'', []] \<and>
   render_chapter (0, extract_page para_then_pre) =
     Some [AddPage, SetFont ''Arial'' ''B'' 20, Cell 0 10 ''1. Untitled Article'', Ln 15,
           SetFont ''Arial'' ''I'' 10, Cell 0 10 ''Source: https://example.com/'', Ln 15,
           SetFont ''Arial'' [] 12,
           MultiCell 0 6 ''Hello'' [] [] False, Ln 3,
           MultiCell 0 6 ([nl] @ ''[Code Block 1]'') [] [] False, Ln 3]"
  by code_simp

end
